theory Spec2Isabelle
  imports Complex_Main "HOL-Library.Sublist" "HOL-Library.Word"
begin

section \<open>Common notions\<close>

text \<open>
  The repository is a gallery of flat Python scripts. Exceptions are values: a computation
  that may raise returns \<open>py_error + 'a\<close>, with \<open>Inl\<close> the exception that ends the
  script. \<open>SystemExit\<close> is what \<open>sys.exit\<close> raises; \<open>LibraryError\<close> stands for whatever
  an external library raises, named by the library.
\<close>

datatype py_error = SystemExit | ZeroDivisionError | ValueError | LibraryError string

text \<open>Python's \<open>str.startswith\<close>: the argument is a prefix of the receiver.\<close>

definition startswith :: "string \<Rightarrow> string \<Rightarrow> bool" where
  "startswith s p = (take (length p) s = p)"

section \<open>ccx_gallery/multihole.py: command-line flags\<close>

text \<open>
  \<^verbatim>\<open>
  show_gui = True
  if '-nogui' in sys.argv:
      show_gui = False
  eshape = 'quad'
  if '-tri' in sys.argv:
      eshape = 'tri'
  \<close>
  \<open>sys.argv\<close> is a list of strings and \<open>in\<close> is list membership.
\<close>

definition show_gui :: "string list \<Rightarrow> bool" where
  "show_gui argv = (if ''-nogui'' \<in> set argv then False else True)"

definition eshape :: "string list \<Rightarrow> string" where
  "eshape argv = (if ''-tri'' \<in> set argv then ''tri'' else ''quad'')"

section \<open>Beys_Gallery/pyfin_alt_risk.py: font path by platform\<close>

text \<open>
  The three font paths and the message are the source's string literals, as UTF-8 bytes
  (the second path and the message are Japanese text).
\<close>

definition win_font :: string where
  "win_font = ''C:'' @ [CHR 0x5C] @ ''Windows'' @ [CHR 0x5C] @ ''Fonts'' @ [CHR 0x5C] @ ''meiryo.ttc''"

definition darwin_font :: string where
  "darwin_font = ''/System/Library/Fonts/'' @
     [CHR 0xE3, CHR 0x83, CHR 0x92, CHR 0xE3, CHR 0x83, CHR 0xA9, CHR 0xE3, CHR 0x82, CHR 0xAE,
      CHR 0xE3, CHR 0x83, CHR 0x8E, CHR 0xE8, CHR 0xA7, CHR 0x92, CHR 0xE3, CHR 0x82, CHR 0xB4,
      CHR 0xE3, CHR 0x82, CHR 0xB7, CHR 0xE3, CHR 0x83, CHR 0x83, CHR 0xE3, CHR 0x82, CHR 0xAF]
     @ '' W4.ttc''"

definition linux_font :: string where
  "linux_font = ''/usr/share/fonts/truetype/takao-gothic/TakaoPGothic.ttf''"

definition unsupported_os_message :: string where
  "unsupported_os_message =
     [CHR 0xE3, CHR 0x81, CHR 0x93, CHR 0xE3, CHR 0x81, CHR 0xAE] @ ''Python'' @
     [CHR 0xE3, CHR 0x82, CHR 0xB3, CHR 0xE3, CHR 0x83, CHR 0xBC, CHR 0xE3, CHR 0x83, CHR 0x89,
      CHR 0xE3, CHR 0x81, CHR 0x8C, CHR 0xE5, CHR 0xAF, CHR 0xBE, CHR 0xE5, CHR 0xBF, CHR 0x9C,
      CHR 0xE3, CHR 0x81, CHR 0x97, CHR 0xE3, CHR 0x81, CHR 0xA6, CHR 0xE3, CHR 0x81, CHR 0x84,
      CHR 0xE3, CHR 0x81, CHR 0xAA, CHR 0xE3, CHR 0x81, CHR 0x84] @ ''OS'' @
     [CHR 0xE3, CHR 0x82, CHR 0x92, CHR 0xE4, CHR 0xBD, CHR 0xBF, CHR 0xE7, CHR 0x94, CHR 0xA8,
      CHR 0xE3, CHR 0x81, CHR 0x97, CHR 0xE3, CHR 0x81, CHR 0xA6, CHR 0xE3, CHR 0x81, CHR 0x84,
      CHR 0xE3, CHR 0x81, CHR 0xBE, CHR 0xE3, CHR 0x81, CHR 0x99, CHR 0xEF, CHR 0xBC, CHR 0x8E]"

text \<open>
  \<^verbatim>\<open>
  if sys.platform.startswith('win'):
      FontPath = 'C:\\Windows\\Fonts\\meiryo.ttc'
  elif sys.platform.startswith('darwin'):
      FontPath = '/System/Library/Fonts/... W4.ttc'
  elif sys.platform.startswith('linux'):
      FontPath = '/usr/share/fonts/truetype/takao-gothic/TakaoPGothic.ttf'
  else:
      print('...')
      sys.exit()
  \<close>
  The result is the list of lines printed and either the exception or \<open>FontPath\<close>.
\<close>

definition FontPath :: "string \<Rightarrow> string list \<times> (py_error + string)" where
  "FontPath platform =
     (if startswith platform ''win'' then ([], Inr win_font)
      else if startswith platform ''darwin'' then ([], Inr darwin_font)
      else if startswith platform ''linux'' then ([], Inr linux_font)
      else ([unsupported_os_message], Inl SystemExit))"


section \<open>Scripts as sequences of external calls\<close>

text \<open>
  Every file is a flat script with no \<open>try\<close> statement. What a run does to the outside
  world is the sequence of calls it makes into the wrapped libraries. A call is recorded
  by its receiver and its function name; recorded are the calls into matplotlib, IPython,
  file input (\<open>pd.read_csv\<close>), the solvers' entry points and parameter setters (cvxpy,
  \<open>scipy.optimize\<close>), meep's simulation object and flux functions, pycalculix's model and
  part, PyQt5, and \<open>print\<close> and \<open>sys.exit\<close>. Array arithmetic (numpy, scipy, math) and the
  constructors of plain value objects (\<open>mp.Vector3\<close>, \<open>cvx.Variable\<close>, ...) are not
  recorded.

  The libraries are a parameter: \<open>lib c w\<close> is what call \<open>c\<close> does in world \<open>w\<close>, either
  raising or giving the next world. A call is taken to return.
\<close>

datatype call = Call string string

type_synonym 'w lib = "call \<Rightarrow> 'w \<Rightarrow> py_error + 'w"

text \<open>
  Statements run in order; an exception ends the run where it is raised. The result is
  the calls that returned, and the exception or the final world.
\<close>

fun run :: "'w lib \<Rightarrow> call list \<Rightarrow> 'w \<Rightarrow> call list \<times> (py_error + 'w)" where
  "run lib [] w = ([], Inr w)"
| "run lib (c # cs) w =
     (case lib c w of
        Inl e \<Rightarrow> ([], Inl e)
      | Inr w' \<Rightarrow> (case run lib cs w' of (tr, r) \<Rightarrow> (c # tr, r)))"

type_synonym 'w script = "'w lib \<Rightarrow> 'w \<Rightarrow> call list \<times> (py_error + 'w)"

text \<open>A plotted figure: a drawing call of matplotlib, meep's \<open>plot2D\<close>, or pycalculix's plots.\<close>

fun is_plot_call :: "call \<Rightarrow> bool" where
  "is_plot_call (Call r f) =
     ((r = ''plt'' \<and> (f = ''plot'' \<or> f = ''loglog'' \<or> f = ''imshow'')) \<or>
      (r = ''sim'' \<and> f = ''plot2D'') \<or>
      (r = ''model'' \<and> (f = ''plot_geometry'' \<or> f = ''plot_elements'')))"

definition renders_plot :: "call list \<Rightarrow> bool" where
  "renders_plot tr = list_ex is_plot_call tr"

text \<open>A library in which no call raises and nothing changes, for concrete runs.\<close>

definition quiet_lib :: "unit lib" where
  "quiet_lib c w = Inr w"


subsection \<open>ccx_gallery/multihole.py\<close>

definition draw_rectangle :: "call list" where
  "draw_rectangle =
     [Call ''part'' ''draw_line_rad'', Call ''part'' ''draw_line_ax'',
      Call ''part'' ''draw_line_rad'', Call ''part'' ''draw_line_ax'']"

definition multihole_calls :: "call list" where
  "multihole_calls =
     [Call ''pyc'' ''FeaModel'', Call ''model'' ''set_units'', Call ''pyc'' ''Part'',
      Call ''part'' ''goto''] @ draw_rectangle @
     [Call ''part'' ''goto''] @ draw_rectangle @
     [Call ''part'' ''goto''] @ draw_rectangle @
     [Call ''model'' ''plot_geometry'', Call ''model'' ''plot_geometry'',
      Call ''model'' ''plot_geometry'', Call ''part'' ''chunk'',
      Call ''model'' ''plot_geometry'', Call ''model'' ''set_eshape'',
      Call ''model'' ''set_etype'', Call ''model'' ''mesh'',
      Call ''model'' ''plot_elements'', Call ''model.view'' ''print_summary'']"

definition multihole :: "'w script" where
  "multihole lib w = run lib multihole_calls w"

subsection \<open>Beys_Gallery/pyfin_alt_risk.py\<close>

definition frontier_plot :: "call list" where
  "frontier_plot =
     [Call ''plt'' ''figure'', Call ''plt'' ''plot'', Call ''plt'' ''plot'',
      Call ''plt'' ''legend'', Call ''plt'' ''xlabel'', Call ''plt'' ''ylabel'']"

text \<open>
  \<open>for idx, Target_Return.value in enumerate(V_Target)\<close>: each of the 250 rounds assigns
  the parameter and calls the solver.
\<close>

definition target_sweep :: "call list" where
  "target_sweep =
     concat (replicate 250 [Call ''Target_Return'' ''value'', Call ''Opt_Portfolio'' ''solve''])"

definition pyfin_prologue :: "call list" where
  "pyfin_prologue = [Call ''get_ipython()'' ''run_line_magic'']"

definition pyfin_body :: "call list" where
  "pyfin_body =
     [Call ''matplotlib.font_manager'' ''FontProperties'', Call ''pd'' ''read_csv''] @
     target_sweep @ frontier_plot @ [Call ''plt'' ''show''] @
     target_sweep @ frontier_plot @ [Call ''plt'' ''show''] @
     concat (replicate 4 ([Call ''Alpha'' ''value'', Call ''Alpha'' ''value''] @ target_sweep)) @
     frontier_plot @ [Call ''plt'' ''figure''] @
     concat (replicate 4 [Call ''Alpha'' ''value'', Call ''plt'' ''plot'']) @
     [Call ''plt'' ''legend'', Call ''plt'' ''xlabel'', Call ''plt'' ''ylabel'',
      Call ''plt'' ''show'', Call ''opt'' ''root'', Call ''builtins'' ''print'']"

text \<open>
  The platform check sits between the notebook magic and the rest; on an unsupported
  platform the run ends there with the message printed.
\<close>

definition pyfin_alt_risk :: "string \<Rightarrow> 'w script" where
  "pyfin_alt_risk platform lib w =
     (case run lib pyfin_prologue w of
        (tr, Inl e) \<Rightarrow> (tr, Inl e)
      | (tr, Inr w1) \<Rightarrow>
          (case FontPath platform of
             (out, Inl e) \<Rightarrow>
               (tr @ map (\<lambda>line. Call ''builtins'' ''print'') out @ [Call ''sys'' ''exit''], Inl e)
           | (out, Inr path) \<Rightarrow>
               (case run lib pyfin_body w1 of (tr2, r) \<Rightarrow> (tr @ tr2, r))))"

subsection \<open>meep_gallery\<close>

definition field_image :: "call list" where
  "field_image =
     [Call ''plt'' ''figure'', Call ''plt'' ''imshow'', Call ''plt'' ''imshow'',
      Call ''plt'' ''axis'', Call ''plt'' ''show'']"

definition solve_cw_calls :: "call list" where
  "solve_cw_calls =
     [Call ''mp'' ''Simulation'', Call ''plt'' ''figure'', Call ''f'' ''gca'',
      Call ''sim'' ''plot2D'', Call ''plt'' ''show''] @
     concat (replicate 5
       [Call ''sim'' ''init_sim'', Call ''sim'' ''solve_cw'', Call ''sim'' ''get_array'']) @
     [Call ''plt'' ''figure'', Call ''plt'' ''loglog'', Call ''plt'' ''xlabel'',
      Call ''plt'' ''ylabel'', Call ''plt'' ''show'', Call ''sim'' ''get_array''] @
     field_image @
     [Call ''builtins'' ''print'', Call ''sim'' ''reset_meep'', Call ''mp'' ''Simulation'',
      Call ''sim'' ''add_dft_fields'', Call ''sim'' ''run'', Call ''sim'' ''get_array'',
      Call ''sim'' ''get_dft_array''] @
     field_image"

definition solve_cw :: "'w script" where
  "solve_cw lib w = run lib solve_cw_calls w"

definition flux_box :: "call list" where
  "flux_box = [Call ''sim'' ''add_flux'', Call ''sim'' ''add_flux'', Call ''sim'' ''add_flux'']"

definition cylinder_cross_section_calls :: "call list" where
  "cylinder_cross_section_calls =
     [Call ''mp'' ''Simulation''] @ flux_box @
     [Call ''sim'' ''run'', Call ''mp'' ''get_flux_freqs'', Call ''sim'' ''get_flux_data'',
      Call ''sim'' ''get_flux_data'', Call ''sim'' ''get_flux_data'', Call ''mp'' ''get_fluxes'',
      Call ''sim'' ''reset_meep'', Call ''mp'' ''Simulation''] @ flux_box @
     [Call ''sim'' ''load_minus_flux_data'', Call ''sim'' ''load_minus_flux_data'',
      Call ''sim'' ''load_minus_flux_data'', Call ''sim'' ''run'', Call ''mp'' ''get_fluxes'',
      Call ''mp'' ''get_fluxes'', Call ''mp'' ''get_fluxes'', Call ''plt'' ''figure'',
      Call ''plt'' ''loglog'', Call ''plt'' ''grid'', Call ''plt'' ''xlabel'',
      Call ''plt'' ''ylabel'', Call ''plt'' ''title'', Call ''plt'' ''tight_layout'',
      Call ''plt'' ''show'']"

definition cylinder_cross_section :: "'w script" where
  "cylinder_cross_section lib w = run lib cylinder_cross_section_calls w"

text \<open>One call of \<open>pol_grating\<close>: the normalisation run, then the run with the grating.\<close>

definition pol_grating_calls :: "call list" where
  "pol_grating_calls =
     [Call ''mp'' ''Simulation'', Call ''sim'' ''add_flux'', Call ''sim'' ''run'',
      Call ''mp'' ''get_fluxes'', Call ''sim'' ''get_flux_data'', Call ''sim'' ''reset_meep'',
      Call ''mp'' ''Simulation'', Call ''sim'' ''add_flux'', Call ''sim'' ''run'',
      Call ''sim'' ''get_eigenmode_coefficients'', Call ''sim'' ''get_eigenmode_coefficients'']"

definition grating_axes :: "call list" where
  "grating_axes =
     [Call ''plt'' ''axis'', Call ''plt'' ''xticks'', Call ''plt'' ''xlabel'',
      Call ''plt'' ''ylabel'', Call ''plt'' ''legend'', Call ''plt'' ''title'']"

text \<open>
  \<open>len_dd\<close> is the length of \<open>dd = np.arange(0.2,3.5,0.2)\<close>; \<open>nmode\<close> is 5, so each
  grating is followed by five printed lines.
\<close>

definition polarization_grating_calls :: "nat \<Rightarrow> call list" where
  "polarization_grating_calls len_dd =
     concat (replicate len_dd
       (pol_grating_calls @ replicate 5 (Call ''builtins'' ''print'') @
        pol_grating_calls @ replicate 5 (Call ''builtins'' ''print''))) @
     [Call ''plt'' ''figure'', Call ''plt'' ''subplot'', Call ''plt'' ''plot'',
      Call ''plt'' ''plot'', Call ''plt'' ''plot'', Call ''plt'' ''plot''] @ grating_axes @
     [Call ''plt'' ''subplot'', Call ''plt'' ''plot'', Call ''plt'' ''plot''] @ grating_axes @
     [Call ''plt'' ''tight_layout'', Call ''plt'' ''show'']"

definition polarization_grating :: "nat \<Rightarrow> 'w script" where
  "polarization_grating len_dd lib w = run lib (polarization_grating_calls len_dd) w"

subsection \<open>maya_gallery/compute_field.py, sfepy_gallery, qt_gallery\<close>

text \<open>
  \<open>compute_field.py\<close> imports numpy and scipy only: it builds the grid and sums the
  field of the two coils into \<open>B\<close> (see \<open>B_field\<close> below), and ends. The sfepy file
  defines one function and the problem's dictionaries, and calls nothing.
\<close>

definition compute_field_calls :: "call list" where
  "compute_field_calls = []"

definition compute_field :: "'w script" where
  "compute_field lib w = run lib compute_field_calls w"

definition poisson_periodic_boundary_condition_calls :: "call list" where
  "poisson_periodic_boundary_condition_calls = []"

definition poisson_periodic_boundary_condition :: "'w script" where
  "poisson_periodic_boundary_condition lib w =
     run lib poisson_periodic_boundary_condition_calls w"

text \<open>\<open>contained3dWindow.__init__\<close>, called from \<open>setupUi\<close>.\<close>

definition contained3dWindow_calls :: "call list" where
  "contained3dWindow_calls =
     [Call ''QWidget'' ''__init__'', Call ''QtWidgets'' ''QVBoxLayout'',
      Call ''Qt3DExtras'' ''Qt3DWindow'', Call ''QWidget'' ''createWindowContainer'',
      Call ''lay'' ''addWidget'', Call ''Qt3DCore'' ''QEntity'', Call ''view'' ''camera'',
      Call ''Qt3DExtras'' ''QFirstPersonCameraController'', Call ''camController'' ''setCamera'',
      Call ''view'' ''setRootEntity'']"

definition retranslateUi_calls :: "call list" where
  "retranslateUi_calls =
     [Call ''QtCore.QCoreApplication'' ''translate'', Call ''MainWindow'' ''setWindowTitle'',
      Call ''QtCore.QCoreApplication'' ''translate'', Call ''menuFile'' ''setTitle'',
      Call ''QtCore.QCoreApplication'' ''translate'', Call ''menuEdit'' ''setTitle'']"

definition setupUi_calls :: "call list" where
  "setupUi_calls =
     [Call ''MainWindow'' ''setObjectName'', Call ''MainWindow'' ''resize'',
      Call ''QtWidgets'' ''QWidget'', Call ''centralwidget'' ''setObjectName'',
      Call ''QtWidgets'' ''QWidget'', Call ''verticalLayoutWidget'' ''setGeometry'',
      Call ''verticalLayoutWidget'' ''setObjectName'', Call ''QtWidgets'' ''QVBoxLayout'',
      Call ''verticalLayout'' ''setContentsMargins'', Call ''verticalLayout'' ''setObjectName'',
      Call ''MainWindow'' ''setCentralWidget'', Call ''QtWidgets'' ''QMenuBar'',
      Call ''menubar'' ''setGeometry'', Call ''menubar'' ''setObjectName'',
      Call ''QtWidgets'' ''QMenu'', Call ''menuFile'' ''setObjectName'',
      Call ''QtWidgets'' ''QMenu'', Call ''menuEdit'' ''setObjectName'',
      Call ''MainWindow'' ''setMenuBar'', Call ''QtWidgets'' ''QStatusBar'',
      Call ''statusbar'' ''setObjectName'', Call ''MainWindow'' ''setStatusBar'',
      Call ''menuFile'' ''menuAction'', Call ''menubar'' ''addAction'',
      Call ''menuEdit'' ''menuAction'', Call ''menubar'' ''addAction''] @
     retranslateUi_calls @
     [Call ''QtCore.QMetaObject'' ''connectSlotsByName''] @
     contained3dWindow_calls @
     [Call ''verticalLayout'' ''addWidget'']"

definition qt_3d_windows_calls :: "call list" where
  "qt_3d_windows_calls =
     [Call ''QtWidgets'' ''QApplication'', Call ''QtWidgets'' ''QMainWindow''] @
     setupUi_calls @
     [Call ''MainWindow'' ''show'', Call ''app'' ''exec_'']"

text \<open>The last statement is \<open>sys.exit(app.exec_())\<close>: a run that gets there ends by it.\<close>

definition qt_3d_windows :: "'w script" where
  "qt_3d_windows lib w =
     (case run lib qt_3d_windows_calls w of
        (tr, Inl e) \<Rightarrow> (tr, Inl e)
      | (tr, Inr w') \<Rightarrow> (tr @ [Call ''sys'' ''exit''], Inl SystemExit))"


section \<open>meep_gallery/polarization_grating.py: the twist angle\<close>









section \<open>maya_gallery/compute_field.py\<close>

subsection \<open>Vectors of reals\<close>





subsection \<open>float64 and int64 arrays\<close>

























subsection \<open>The field of one loop\<close>























section \<open>Beys_Gallery/pyfin_alt_risk.py: the mean-absolute-deviation frontier\<close>

text \<open>
  \<open>np.linspace(start, stop, num)\<close>: \<open>num\<close> samples \<open>start + i * step\<close> with
  \<open>step = (stop - start) / (num - 1)\<close>, the last one set to \<open>stop\<close>.
\<close>

definition linspace :: "real \<Rightarrow> real \<Rightarrow> nat \<Rightarrow> real list" where
  "linspace start stop num =
     (if num = 0 then []
      else if num = 1 then [start]
      else (map (\<lambda>i. start + real i * ((stop - start) / real (num - 1))) [0..<num])
             [num - 1 := stop])"

text \<open>
  The convex solver is a parameter, acting on a state of its own: assigning
  \<open>Target_Return.value\<close> (cvxpy checks the value and may raise), \<open>Opt_Portfolio.solve\<close>
  (may raise), and reading \<open>Risk_AD.value\<close>.
\<close>

record 's cvxpy =
  set_Target_Return :: "real \<Rightarrow> 's \<Rightarrow> py_error + 's"
  solve_ECOS :: "'s \<Rightarrow> py_error + 's"
  Risk_AD_value :: "'s \<Rightarrow> real"

text \<open>
  \<^verbatim>\<open>
  for idx, Target_Return.value in enumerate(V_Target):
      Opt_Portfolio.solve(solver=cvx.ECOS)
      V_Risk[idx] = Risk_AD.value
  \<close>
  The loop state is \<open>V_Risk\<close>, the solver's state, and a log that records, for every
  solver call made, the target in force.
\<close>

fun frontier_loop ::
  "'s cvxpy \<Rightarrow> (nat \<times> real) list \<Rightarrow> real list \<times> real list \<times> 's \<Rightarrow>
     py_error + real list \<times> real list \<times> 's" where
  "frontier_loop cvx [] st = Inr st"
| "frontier_loop cvx ((idx, target) # rest) (V_Risk, solved, s) =
     (case set_Target_Return cvx target s of
        Inl e \<Rightarrow> Inl e
      | Inr s1 \<Rightarrow>
          (case solve_ECOS cvx s1 of
             Inl e \<Rightarrow> Inl e
           | Inr s2 \<Rightarrow>
               frontier_loop cvx rest (V_Risk[idx := Risk_AD_value cvx s2], solved @ [target], s2)))"

text \<open>
  \<^verbatim>\<open>
  V_Target = np.linspace(Mu.min(), Mu.max(), num=250)
  V_Risk = np.zeros(V_Target.shape)
  \<close>
  and the loop. \<open>Mu.min()\<close> of an empty array raises \<open>ValueError\<close>.
\<close>

definition mad_frontier ::
  "'s cvxpy \<Rightarrow> real list \<Rightarrow> 's \<Rightarrow> py_error + real list \<times> real list \<times> real list \<times> 's" where
  "mad_frontier cvx Mu s =
     (if Mu = [] then Inl ValueError
      else
        let V_Target = linspace (Min (set Mu)) (Max (set Mu)) 250;
            V_Risk = replicate (length V_Target) 0
        in case frontier_loop cvx (enumerate 0 V_Target) (V_Risk, [], s) of
             Inl e \<Rightarrow> Inl e
           | Inr (V_Risk', solved, s') \<Rightarrow> Inr (V_Target, V_Risk', solved, s'))"

text \<open>The solver's state after the targets \<open>ts\<close> have been set and solved in turn.\<close>

fun solved_state :: "'s cvxpy \<Rightarrow> real list \<Rightarrow> 's \<Rightarrow> py_error + 's" where
  "solved_state cvx [] s = Inr s"
| "solved_state cvx (target # ts) s =
     (case set_Target_Return cvx target s of
        Inl e \<Rightarrow> Inl e
      | Inr s1 \<Rightarrow> (case solve_ECOS cvx s1 of Inl e \<Rightarrow> Inl e | Inr s2 \<Rightarrow> solved_state cvx ts s2))"

text \<open>For concrete runs: a solver whose state is the target in force and whose risk is twice it.\<close>

definition toy_cvxpy :: "real cvxpy" where
  "toy_cvxpy =
     \<lparr>set_Target_Return = (\<lambda>target s. Inr target),
      solve_ECOS = (\<lambda>s. Inr s),
      Risk_AD_value = (\<lambda>s. 2 * s)\<rparr>"


section \<open>Properties\<close>

lemma startswith_exclusive:
  "startswith s ''win'' \<Longrightarrow> \<not> startswith s ''darwin'' \<and> \<not> startswith s ''linux''"
  "startswith s ''darwin'' \<Longrightarrow> \<not> startswith s ''linux''"
  by (cases s; simp add: startswith_def)+


subsection \<open>Running a call sequence\<close>

lemma run_append:
  "run lib (xs @ ys) w =
     (case run lib xs w of
        (tr, Inl e) \<Rightarrow> (tr, Inl e)
      | (tr, Inr w1) \<Rightarrow> (case run lib ys w1 of (tr2, r) \<Rightarrow> (tr @ tr2, r)))"
  by (induction xs arbitrary: w) (auto split: sum.splits prod.splits)

lemma run_trace_prefix: "run lib cs w = (tr, r) \<Longrightarrow> prefix tr cs"
  by (induction cs arbitrary: w tr r) (auto split: sum.splits prod.splits)

lemma run_completed: "run lib cs w = (tr, Inr w') \<Longrightarrow> tr = cs"
  by (induction cs arbitrary: w tr) (auto split: sum.splits prod.splits)

lemma run_quiet_lib: "run quiet_lib cs w = (cs, Inr w)"
  by (induction cs) (auto simp: quiet_lib_def)


lemma not_plot_prefix: "prefix tr cs \<Longrightarrow> \<not> renders_plot cs \<Longrightarrow> \<not> renders_plot tr"
  by (auto simp: renders_plot_def list_ex_iff prefix_def)

subsection \<open>The platform check\<close>

text \<open>
  C2: if \<open>sys.platform\<close> starts with \<open>'win'\<close>, \<open>'darwin'\<close> or \<open>'linux'\<close>, the script
  assigns the corresponding font path and goes on with the rest of the script; for every
  other platform string it prints the message and ends by \<open>sys.exit\<close>, having made none of
  the data-loading, solver or plotting calls.
\<close>

theorem font_path_by_platform:
  "(startswith platform ''win'' \<longrightarrow> FontPath platform = ([], Inr win_font)) \<and>
   (startswith platform ''darwin'' \<longrightarrow> FontPath platform = ([], Inr darwin_font)) \<and>
   (startswith platform ''linux'' \<longrightarrow> FontPath platform = ([], Inr linux_font)) \<and>
   (startswith platform ''win'' \<or> startswith platform ''darwin'' \<or> startswith platform ''linux''
      \<longrightarrow> pyfin_alt_risk platform lib w = run lib (pyfin_prologue @ pyfin_body) w) \<and>
   (\<not> startswith platform ''win'' \<and> \<not> startswith platform ''darwin'' \<and>
    \<not> startswith platform ''linux'' \<longrightarrow>
      FontPath platform = ([unsupported_os_message], Inl SystemExit) \<and>
      isl (snd (pyfin_alt_risk platform lib w)) \<and>
      set (fst (pyfin_alt_risk platform lib w)) \<subseteq>
        {Call ''get_ipython()'' ''run_line_magic'', Call ''builtins'' ''print'',
         Call ''sys'' ''exit''} \<and>
      (run lib pyfin_prologue w = (pyfin_prologue, Inr w1) \<longrightarrow>
         pyfin_alt_risk platform lib w =
           (pyfin_prologue @ [Call ''builtins'' ''print'', Call ''sys'' ''exit''], Inl SystemExit)))"
proof -
  have excl: "startswith platform ''darwin'' \<Longrightarrow> \<not> startswith platform ''win''"
    "startswith platform ''linux'' \<Longrightarrow> \<not> startswith platform ''win''"
    "startswith platform ''linux'' \<Longrightarrow> \<not> startswith platform ''darwin''"
    using startswith_exclusive [of platform] by blast+
  have paths: "startswith platform ''win'' \<longrightarrow> FontPath platform = ([], Inr win_font)"
    "startswith platform ''darwin'' \<longrightarrow> FontPath platform = ([], Inr darwin_font)"
    "startswith platform ''linux'' \<longrightarrow> FontPath platform = ([], Inr linux_font)"
    using excl by (simp_all add: FontPath_def)
  have goes_on: "pyfin_alt_risk platform lib w = run lib (pyfin_prologue @ pyfin_body) w"
    if "startswith platform ''win'' \<or> startswith platform ''darwin'' \<or> startswith platform ''linux''"
  proof -
    from that paths obtain path where "FontPath platform = ([], Inr path)" by blast
    then show ?thesis
      by (simp add: pyfin_alt_risk_def run_append split: prod.splits sum.splits)
  qed
  have stops: "FontPath platform = ([unsupported_os_message], Inl SystemExit) \<and>
      isl (snd (pyfin_alt_risk platform lib w)) \<and>
      set (fst (pyfin_alt_risk platform lib w)) \<subseteq>
        {Call ''get_ipython()'' ''run_line_magic'', Call ''builtins'' ''print'',
         Call ''sys'' ''exit''} \<and>
      (run lib pyfin_prologue w = (pyfin_prologue, Inr w1) \<longrightarrow>
         pyfin_alt_risk platform lib w =
           (pyfin_prologue @ [Call ''builtins'' ''print'', Call ''sys'' ''exit''], Inl SystemExit))"
    if "\<not> startswith platform ''win''" "\<not> startswith platform ''darwin''"
       "\<not> startswith platform ''linux''"
  proof -
    have fp: "FontPath platform = ([unsupported_os_message], Inl SystemExit)"
      using that by (simp add: FontPath_def)
    obtain tr r where rn: "run lib pyfin_prologue w = (tr, r)" by (cases "run lib pyfin_prologue w")
    then have "prefix tr pyfin_prologue" by (rule run_trace_prefix)
    then have sub: "set tr \<subseteq> {Call ''get_ipython()'' ''run_line_magic''}"
      by (auto simp: pyfin_prologue_def prefix_def Cons_eq_append_conv)
    show ?thesis
      using fp rn sub by (cases r) (auto simp: pyfin_alt_risk_def)
  qed
  show ?thesis using paths goes_on stops by blast
qed

theorem font_path_by_platform_witness:
  "startswith ''linux'' ''linux'' \<and> FontPath ''linux'' = ([], Inr linux_font) \<and>
   pyfin_alt_risk ''linux'' quiet_lib () = run quiet_lib (pyfin_prologue @ pyfin_body) () \<and>
   \<not> startswith ''freebsd12'' ''win'' \<and> \<not> startswith ''freebsd12'' ''darwin'' \<and>
   \<not> startswith ''freebsd12'' ''linux'' \<and>
   run quiet_lib pyfin_prologue () = (pyfin_prologue, Inr ()) \<and>
   FontPath ''freebsd12'' = ([unsupported_os_message], Inl SystemExit) \<and>
   pyfin_alt_risk ''freebsd12'' quiet_lib () =
     (pyfin_prologue @ [Call ''builtins'' ''print'', Call ''sys'' ''exit''], Inl SystemExit)"
proof -
  have a: "startswith ''linux'' ''linux''" by (simp add: startswith_def)
  have b: "\<not> startswith ''freebsd12'' ''win''" "\<not> startswith ''freebsd12'' ''darwin''"
    "\<not> startswith ''freebsd12'' ''linux''"
    by (simp_all add: startswith_def)
  have c: "run quiet_lib pyfin_prologue () = (pyfin_prologue, Inr ())" by (rule run_quiet_lib)
  show ?thesis
    using a b c font_path_by_platform [of "''linux''" quiet_lib "()"]
      font_path_by_platform [of "''freebsd12''" quiet_lib "()" "()"]
    by blast
qed

subsection \<open>Which scripts plot\<close>

lemma plots_multihole: "renders_plot multihole_calls"
  by (simp add: renders_plot_def multihole_calls_def)

lemma plots_pyfin: "renders_plot (pyfin_prologue @ pyfin_body)"
  by (simp add: renders_plot_def pyfin_body_def frontier_plot_def)

lemma plots_solve_cw: "renders_plot solve_cw_calls"
  by (simp add: renders_plot_def solve_cw_calls_def)

lemma plots_cylinder: "renders_plot cylinder_cross_section_calls"
  by (simp add: renders_plot_def cylinder_cross_section_calls_def)

lemma plots_grating: "renders_plot (polarization_grating_calls len_dd)"
  by (simp add: renders_plot_def polarization_grating_calls_def)

lemma no_plot_qt: "\<not> renders_plot (qt_3d_windows_calls @ [Call ''sys'' ''exit''])"
  by (simp add: renders_plot_def qt_3d_windows_calls_def setupUi_calls_def
      retranslateUi_calls_def contained3dWindow_calls_def)


text \<open>
  C1, in the form that holds: run to completion, \<open>pyfin_alt_risk.py\<close>, \<open>multihole.py\<close>,
  \<open>solve-cw.py\<close>, \<open>cylinder_cross_section.py\<close> and \<open>polarization_grating.py\<close> each
  make at least one plotting call; \<open>compute_field.py\<close>, \<open>qt_3d_windows.py\<close> and the sfepy
  problem file make none, however the run goes.
\<close>

theorem scripts_that_plot:
  "(pyfin_alt_risk platform lib w = (tr1, Inr w1) \<longrightarrow> renders_plot tr1) \<and>
   (multihole lib w = (tr2, Inr w2) \<longrightarrow> renders_plot tr2) \<and>
   (solve_cw lib w = (tr3, Inr w3) \<longrightarrow> renders_plot tr3) \<and>
   (cylinder_cross_section lib w = (tr4, Inr w4) \<longrightarrow> renders_plot tr4) \<and>
   (polarization_grating len_dd lib w = (tr5, Inr w5) \<longrightarrow> renders_plot tr5) \<and>
   \<not> renders_plot (fst (compute_field lib w)) \<and>
   \<not> renders_plot (fst (qt_3d_windows lib w)) \<and>
   \<not> renders_plot (fst (poisson_periodic_boundary_condition lib w))"
proof -
  have pyfin: "renders_plot tr1" if h: "pyfin_alt_risk platform lib w = (tr1, Inr w1)"
  proof -
    have "startswith platform ''win'' \<or> startswith platform ''darwin'' \<or>
        startswith platform ''linux''"
    proof (rule ccontr)
      assume "\<not> ?thesis"
      then have "FontPath platform = ([unsupported_os_message], Inl SystemExit)"
        by (simp add: FontPath_def)
      then show False
        using h by (auto simp: pyfin_alt_risk_def split: prod.splits sum.splits)
    qed
    then have "\<exists>path. FontPath platform = ([], Inr path)"
      by (auto simp: FontPath_def)
    then obtain path where "FontPath platform = ([], Inr path)" by blast
    then have "pyfin_alt_risk platform lib w = run lib (pyfin_prologue @ pyfin_body) w"
      by (simp add: pyfin_alt_risk_def run_append split: prod.splits sum.splits)
    with h have "tr1 = pyfin_prologue @ pyfin_body" by (simp add: run_completed)
    then show ?thesis by (simp only: plots_pyfin)
  qed
  have multi: "multihole lib w = (tr2, Inr w2) \<longrightarrow> renders_plot tr2"
    using plots_multihole by (auto simp: multihole_def dest: run_completed)
  have cw: "solve_cw lib w = (tr3, Inr w3) \<longrightarrow> renders_plot tr3"
    using plots_solve_cw by (auto simp: solve_cw_def dest: run_completed)
  have cyl: "cylinder_cross_section lib w = (tr4, Inr w4) \<longrightarrow> renders_plot tr4"
    using plots_cylinder by (auto simp: cylinder_cross_section_def dest: run_completed)
  have grat: "polarization_grating len_dd lib w = (tr5, Inr w5) \<longrightarrow> renders_plot tr5"
    using plots_grating by (auto simp: polarization_grating_def dest: run_completed)
  have field: "\<not> renders_plot (fst (compute_field lib w))"
    by (simp add: compute_field_def compute_field_calls_def renders_plot_def)
  have sfepy: "\<not> renders_plot (fst (poisson_periodic_boundary_condition lib w))"
    by (simp add: poisson_periodic_boundary_condition_def
        poisson_periodic_boundary_condition_calls_def renders_plot_def)
  have qt: "\<not> renders_plot (fst (qt_3d_windows lib w))"
  proof -
    obtain tr r where rn: "run lib qt_3d_windows_calls w = (tr, r)"
      by (cases "run lib qt_3d_windows_calls w")
    then have pre: "prefix tr qt_3d_windows_calls" by (rule run_trace_prefix)
    have "prefix (fst (qt_3d_windows lib w)) (qt_3d_windows_calls @ [Call ''sys'' ''exit''])"
    proof (cases r)
      case (Inl e)
      then show ?thesis using rn pre by (simp add: qt_3d_windows_def prefix_prefix)
    next
      case (Inr w')
      then have "tr = qt_3d_windows_calls" using rn by (simp add: run_completed)
      then show ?thesis using rn Inr by (simp add: qt_3d_windows_def)
    qed
    then show ?thesis using no_plot_qt by (rule not_plot_prefix)
  qed
  show ?thesis using pyfin multi cw cyl grat field sfepy qt by blast
qed

theorem scripts_that_plot_witness:
  "pyfin_alt_risk ''linux'' quiet_lib () = (pyfin_prologue @ pyfin_body, Inr ()) \<and>
   renders_plot (pyfin_prologue @ pyfin_body) \<and>
   multihole quiet_lib () = (multihole_calls, Inr ()) \<and> renders_plot multihole_calls \<and>
   solve_cw quiet_lib () = (solve_cw_calls, Inr ()) \<and> renders_plot solve_cw_calls \<and>
   cylinder_cross_section quiet_lib () = (cylinder_cross_section_calls, Inr ()) \<and>
   renders_plot cylinder_cross_section_calls \<and>
   polarization_grating 17 quiet_lib () = (polarization_grating_calls 17, Inr ()) \<and>
   renders_plot (polarization_grating_calls 17)"
proof -
  have "FontPath ''linux'' = ([], Inr linux_font)"
    by (simp add: FontPath_def startswith_def)
  then have a: "pyfin_alt_risk ''linux'' quiet_lib () = (pyfin_prologue @ pyfin_body, Inr ())"
    by (simp add: pyfin_alt_risk_def run_quiet_lib run_append [symmetric])
  have b: "multihole quiet_lib () = (multihole_calls, Inr ())"
    "solve_cw quiet_lib () = (solve_cw_calls, Inr ())"
    "cylinder_cross_section quiet_lib () = (cylinder_cross_section_calls, Inr ())"
    "polarization_grating 17 quiet_lib () = (polarization_grating_calls 17, Inr ())"
    by (simp_all add: multihole_def solve_cw_def cylinder_cross_section_def
        polarization_grating_def run_quiet_lib)
  show ?thesis
    using a b
      scripts_that_plot [of "''linux''" quiet_lib "()" "pyfin_prologue @ pyfin_body" "()"
        multihole_calls "()" solve_cw_calls "()" cylinder_cross_section_calls "()"
        17 "polarization_grating_calls 17" "()"]
    by blast
qed

text \<open>
  C1 as the specification words it, that every script renders a plot when run to
  completion, fails at \<open>compute_field.py\<close>: with a library in which every call returns,
  the run completes and its trace holds no plotting call.
\<close>

theorem compute_field_plots_nothing:
  "compute_field quiet_lib () = ([], Inr ()) \<and>
   \<not> renders_plot (fst (compute_field quiet_lib ()))"
  by (simp add: compute_field_def compute_field_calls_def renders_plot_def)

subsection \<open>Flags of multihole.py\<close>

text \<open>
  C3: for every argument vector, \<open>show_gui\<close> is False exactly when \<open>'-nogui'\<close> occurs in
  \<open>sys.argv\<close> (otherwise True), and \<open>eshape\<close> is \<open>'tri'\<close> exactly when \<open>'-tri'\<close> occurs in
  \<open>sys.argv\<close> (otherwise \<open>'quad'\<close>).
\<close>

theorem multihole_flags:
  "(show_gui argv = False \<longleftrightarrow> ''-nogui'' \<in> set argv) \<and>
   (eshape argv = ''tri'' \<longleftrightarrow> ''-tri'' \<in> set argv) \<and>
   (eshape argv = ''tri'' \<or> eshape argv = ''quad'')"
  by (simp add: show_gui_def eshape_def)

subsection \<open>The twist angle at the interface of the two layers\<close>




subsection \<open>The base vectors of a coil\<close>












































subsection \<open>The frontier sweep\<close>

lemma linspace_length: "length (linspace a b n) = n"
  by (simp add: linspace_def)

lemma linspace_nth:
  assumes "2 \<le> n" "i < n"
  shows "linspace a b n ! i = a + real i * ((b - a) / real (n - 1))"
proof (cases "i = n - 1")
  case True
  have "real (n - 1) \<noteq> 0" using assms by simp
  then have "a + real (n - 1) * ((b - a) / real (n - 1)) = b" by simp
  then show ?thesis using assms True by (simp add: linspace_def)
next
  case False
  then show ?thesis using assms by (simp add: linspace_def)
qed

lemma frontier_loop_result:
  "frontier_loop cvx (enumerate k ts) (VR, lg, s) = Inr (VR', lg', s') \<Longrightarrow>
   k + length ts \<le> length VR \<Longrightarrow>
     length VR' = length VR \<and> lg' = lg @ ts \<and> solved_state cvx ts s = Inr s' \<and>
     (\<forall>j<k. VR' ! j = VR ! j) \<and>
     (\<forall>i<length ts. \<exists>si. solved_state cvx (take (Suc i) ts) s = Inr si \<and>
        VR' ! (k + i) = Risk_AD_value cvx si)"
proof (induction ts arbitrary: k VR lg s)
  case Nil
  then show ?case by simp
next
  case (Cons t ts)
  from Cons.prems(1) obtain s1 s2 where
    st: "set_Target_Return cvx t s = Inr s1" "solve_ECOS cvx s1 = Inr s2" and
    rec: "frontier_loop cvx (enumerate (Suc k) ts)
            (VR[k := Risk_AD_value cvx s2], lg @ [t], s2) = Inr (VR', lg', s')"
    by (auto split: sum.splits)
  have len: "Suc k + length ts \<le> length (VR[k := Risk_AD_value cvx s2])"
    using Cons.prems(2) by simp
  from Cons.IH [OF rec len] have
    ih: "length VR' = length VR" "lg' = lg @ t # ts" "solved_state cvx ts s2 = Inr s'"
        "\<forall>j<Suc k. VR' ! j = VR[k := Risk_AD_value cvx s2] ! j"
        "\<forall>i<length ts. \<exists>si. solved_state cvx (take (Suc i) ts) s2 = Inr si \<and>
            VR' ! (Suc k + i) = Risk_AD_value cvx si"
    by simp_all
  have kin: "k < length VR" using Cons.prems(2) by simp
  have below: "\<forall>j<k. VR' ! j = VR ! j" using ih(4) by auto
  have atk: "VR' ! k = Risk_AD_value cvx s2" using ih(4) kin by auto
  have each: "\<exists>si. solved_state cvx (take (Suc i) (t # ts)) s = Inr si \<and>
        VR' ! (k + i) = Risk_AD_value cvx si" if "i < length (t # ts)" for i
  proof (cases i)
    case 0
    then show ?thesis using st atk by simp
  next
    case (Suc i')
    then have "i' < length ts" using that by simp
    with ih(5) obtain si where "solved_state cvx (take (Suc i') ts) s2 = Inr si"
      "VR' ! (Suc k + i') = Risk_AD_value cvx si" by blast
    then show ?thesis using Suc st by simp
  qed
  show ?case using ih(1,2,3) st below each by simp
qed


lemma frontier_loop_returns:
  "solved_state cvx ts s = Inr s' \<Longrightarrow> \<exists>VR' lg'. frontier_loop cvx (enumerate k ts) (VR, lg, s) = Inr (VR', lg', s')"
  by (induction ts arbitrary: k VR lg s) (auto split: sum.splits)

lemma solved_state_toy: "\<exists>s'. solved_state toy_cvxpy ts s = Inr s'"
  by (induction ts arbitrary: s) (auto simp: toy_cvxpy_def)

lemma even_step: "(a::real) + real (Suc i) * c - (a + real i * c) = c"
  by (simp add: algebra_simps)

text \<open>
  C4: in a run of the frontier computation that returns, \<open>V_Target\<close> has exactly 250
  values, evenly spaced from \<open>Mu.min()\<close> to \<open>Mu.max()\<close>; the solver was called once for
  each target, in order (\<open>solved = V_Target\<close>); \<open>V_Risk\<close> has the length of \<open>V_Target\<close>,
  and \<open>V_Risk[idx]\<close> is the risk value read after the solver call for \<open>V_Target[idx]\<close>.
\<close>

theorem mad_frontier_sweep:
  assumes "mad_frontier cvx Mu s = Inr (V_Target, V_Risk, solved, s')"
  shows "length V_Target = 250 \<and>
         V_Target ! 0 = Min (set Mu) \<and> V_Target ! 249 = Max (set Mu) \<and>
         (\<forall>i<249. V_Target ! Suc i - V_Target ! i = (Max (set Mu) - Min (set Mu)) / 249) \<and>
         length V_Risk = length V_Target \<and> solved = V_Target \<and>
         (\<forall>idx<250. \<exists>s_idx. solved_state cvx (take (Suc idx) V_Target) s = Inr s_idx \<and>
            V_Risk ! idx = Risk_AD_value cvx s_idx)"
proof -
  let ?a = "Min (set Mu)" and ?b = "Max (set Mu)"
  let ?T = "linspace ?a ?b 250"
  from assms have ne: "Mu \<noteq> []" by (auto simp: mad_frontier_def split: if_splits)
  from assms ne have T: "V_Target = ?T" and
    loop: "frontier_loop cvx (enumerate 0 ?T) (replicate (length ?T) 0, [], s) =
             Inr (V_Risk, solved, s')"
    by (auto simp: mad_frontier_def Let_def split: sum.splits)
  have len: "length ?T = 250" by (rule linspace_length)
  have nth: "?T ! i = ?a + real i * ((?b - ?a) / 249)" if "i < 250" for i
    using linspace_nth [of 250 i ?a ?b] that by simp
  have first: "?T ! 0 = ?a" using nth [of 0] by simp
  have last: "?T ! 249 = ?b" by (simp add: linspace_def)
  have step: "?T ! Suc i - ?T ! i = (?b - ?a) / 249" if "i < 249" for i
  proof -
    have p: "?T ! Suc i = ?a + real (Suc i) * ((?b - ?a) / 249)"
      using that by (intro nth) simp
    have q: "?T ! i = ?a + real i * ((?b - ?a) / 249)"
      using that by (intro nth) simp
    show ?thesis unfolding p q by (rule even_step)
  qed
  have "0 + length ?T \<le> length (replicate (length ?T) (0::real))" by simp
  from frontier_loop_result [OF loop this] have
    res: "length V_Risk = length ?T" "solved = ?T"
      "\<forall>i<length ?T. \<exists>si. solved_state cvx (take (Suc i) ?T) s = Inr si \<and>
          V_Risk ! (0 + i) = Risk_AD_value cvx si"
    by simp_all
  show ?thesis
    using T len first last step res by simp
qed


lemma Min_Max_example: "Min (set [1, 3 :: real]) = 1" "Max (set [1, 3 :: real]) = 3"
  by simp_all

theorem mad_frontier_sweep_witness:
  "\<exists>V_Target V_Risk solved s'.
     mad_frontier toy_cvxpy [1, 3] 0 = Inr (V_Target, V_Risk, solved, s') \<and>
     length V_Target = 250 \<and> V_Target ! 0 = 1 \<and> V_Target ! 249 = 3 \<and>
     V_Target ! Suc 0 - V_Target ! 0 = (3 - 1) / 249 \<and>
     length V_Risk = length V_Target \<and> solved = V_Target \<and> V_Risk ! 0 = 2"
proof -
  let ?T = "linspace 1 3 250"
  obtain s1 where "solved_state toy_cvxpy ?T 0 = Inr s1"
    using solved_state_toy by blast
  from frontier_loop_returns [OF this] obtain VR lg where
    "frontier_loop toy_cvxpy (enumerate 0 ?T) (replicate (length ?T) 0, [], 0) = Inr (VR, lg, s1)"
    by blast
  then have run: "mad_frontier toy_cvxpy [1, 3] 0 = Inr (?T, VR, lg, s1)"
    by (simp add: mad_frontier_def Min_Max_example del: set_simps)
  note th = mad_frontier_sweep [OF run, unfolded Min_Max_example]
  from th have len: "length ?T = 250" and t0: "?T ! 0 = 1" and t249: "?T ! 249 = 3"
    and lr: "length VR = length ?T" and lg: "lg = ?T"
    by blast+
  from th have steps: "\<forall>i<249. ?T ! Suc i - ?T ! i = (3 - 1) / 249" by blast
  from th have risks: "\<forall>idx<250. \<exists>s_idx. solved_state toy_cvxpy (take (Suc idx) ?T) 0 = Inr s_idx \<and>
            VR ! idx = Risk_AD_value toy_cvxpy s_idx" by blast
  have "(0::nat) < 249" by simp
  with steps have step0: "?T ! Suc 0 - ?T ! 0 = (3 - 1) / 249" by blast
  have "(0::nat) < 250" by simp
  with risks obtain s0 where s0: "solved_state toy_cvxpy (take (Suc 0) ?T) 0 = Inr s0"
    "VR ! 0 = Risk_AD_value toy_cvxpy s0" by blast
  have "take (Suc 0) ?T = [1]"
    using t0 len by (cases ?T) auto
  with s0 have r0: "VR ! 0 = 2" by (auto simp: toy_cvxpy_def)
  show ?thesis
    using run len t0 t249 step0 lr lg r0 by blast
qed

subsection \<open>The guarded points of the field of a loop\<close>















subsection \<open>Errors of the libraries\<close>










end
